theory Spec2Isabelle
  imports Main
begin

section \<open>The child process owner of boost/process/child.hpp\<close>

text \<open>
  A shallow embedding of \<^verbatim>\<open>include/boost/process/child.hpp\<close>: the resource aggregate
  built by \<^verbatim>\<open>detail::make_resource\<close> and the class \<^verbatim>\<open>child\<close>. The platform layer
  (\<^verbatim>\<open>boost::process::detail::api\<close>: \<^verbatim>\<open>child_handle\<close>, \<^verbatim>\<open>is_running\<close>,
  \<^verbatim>\<open>terminate\<close>, \<^verbatim>\<open>wait\<close>, \<^verbatim>\<open>wait_for\<close>, \<^verbatim>\<open>wait_until\<close>) is included by the
  header but defined elsewhere, so it is a parameter of the model: every operation of
  \<^verbatim>\<open>child\<close> takes the platform and the state of the world it acts on, and returns
  the new state of the owner and of the world.
\<close>

subsection \<open>Resource aggregate\<close>

text \<open>
  \<^verbatim>\<open>initializer_resource(v)\<close> is not defined in this header: it is the parameter
  \<open>initializer_resource\<close> below. Its result is either \<^verbatim>\<open>boost::none\<close> (here \<open>None\<close>)
  or a concrete resource \<open>r\<close> (here \<open>Some r\<close>).

  \<^verbatim>\<open>boost::hana::transform\<close> maps a function over a tuple, \<^verbatim>\<open>boost::hana::filter\<close>
  keeps the elements that satisfy the predicate, in order, and \<^verbatim>\<open>boost::hana::unpack\<close>
  passes the elements of the tuple as arguments: a tuple is a list here.

  The predicate of the filter compares types. \<^verbatim>\<open>boost::hana::decltype_\<close> removes the
  reference from the type of its argument and keeps its cv-qualifiers. The parameter
  \<^verbatim>\<open>auto v\<close> of the predicate is a copy, of the unqualified type of the entry;
  \<^verbatim>\<open>boost::none\<close> is a constant, of type \<^verbatim>\<open>const none_t\<close>.
\<close>

datatype 'r cpp_type = None_T | Resource_Type 'r

datatype 'r qualified_type = Unqualified "'r cpp_type" | Const "'r cpp_type"

definition decltype_value :: "'r option \<Rightarrow> 'r qualified_type" where
  \<comment> \<open>\<^verbatim>\<open>boost::hana::decltype_(v)\<close> for the by-value parameter \<^verbatim>\<open>v\<close>\<close>
  "decltype_value v =
     (case v of None \<Rightarrow> Unqualified None_T | Some r \<Rightarrow> Unqualified (Resource_Type r))"

definition decltype_none :: "'r qualified_type" where
  \<comment> \<open>\<^verbatim>\<open>boost::hana::decltype_(boost::none)\<close>\<close>
  "decltype_none = Const None_T"

definition is_none_t :: "'r option \<Rightarrow> bool" where
  \<comment> \<open>\<^verbatim>\<open>boost::hana::decltype_(v) == boost::hana::decltype_(boost::none)\<close>\<close>
  "is_none_t v = (decltype_value v = decltype_none)"

text \<open>
  The aggregate \<^verbatim>\<open>resource_t<Args...>\<close> inherits from every type of its parameter
  pack, so it is the list of its bases. \<^verbatim>\<open>maker\<close> instantiates it with
  \<^verbatim>\<open>decltype(args)...\<close>, where \<^verbatim>\<open>args\<close> are forwarding references: every type of
  the pack is a reference type, which cannot be a base class. The instantiation is
  well-formed for the empty pack only.
\<close>

datatype 'r resource_t = Resource_T (bases: "'r option list")

datatype build_error = Ill_Formed

definition maker :: "'r option list \<Rightarrow> build_error + 'r resource_t" where
  "maker args = (case args of [] \<Rightarrow> Inr (Resource_T []) | x # xs \<Rightarrow> Inl Ill_Formed)"

definition make_resource :: "('d \<Rightarrow> 'r option) \<Rightarrow> 'd list \<Rightarrow> build_error + 'r resource_t" where
  "make_resource initializer_resource tup =
     (let res = map (\<lambda>v. initializer_resource v) tup;
          filtered = filter (\<lambda>v. is_none_t v) res
      in maker filtered)"

subsection \<open>Platform layer\<close>

type_synonym native_handle_t = int
type_synonym duration = int
type_synonym time_point = int

text \<open>
  Modelled from the spec: \<^verbatim>\<open>child_handle\<close>, whose declaration is in the platform
  headers. A handle is either valid (it refers to a process) or empty
  (default-constructed or moved-from); moving out of a handle leaves it empty;
  destroying an empty handle does nothing.
\<close>

type_synonym child_handle = "native_handle_t option"

definition handle_valid :: "child_handle \<Rightarrow> bool" where
  "handle_valid h = (case h of None \<Rightarrow> False | Some _ \<Rightarrow> True)"

text \<open>
  A call into the platform either returns a value, or reports a failure to the caller
  (an exception), or never returns (a blocking wait on a process that does not exit).
  The second component is the state the call leaves behind.
\<close>

datatype os_error = Os_Error int

datatype ('r, 's) outcome = Returns 'r 's | Throws os_error 's | Hangs

text \<open>
  The platform, acting on a world of type \<open>'w\<close>. The three waits take their exit code
  parameter by reference: the model passes the value the referenced integer holds and
  gets back, beside the world, the value it holds after the call.
  \<open>handle_close\<close> is what destroying a valid handle does and \<open>deleter\<close> is the deleter
  stored in the owning pointer, applied to the aggregate it points to.
\<close>

record 'w platform =
  api_is_running :: "child_handle \<Rightarrow> 'w \<Rightarrow> (bool, 'w) outcome"
  api_terminate :: "child_handle \<Rightarrow> 'w \<Rightarrow> (unit, 'w) outcome"
  api_wait :: "child_handle \<Rightarrow> int \<Rightarrow> 'w \<Rightarrow> (unit, int \<times> 'w) outcome"
  api_wait_for :: "child_handle \<Rightarrow> int \<Rightarrow> duration \<Rightarrow> 'w \<Rightarrow> (bool, int \<times> 'w) outcome"
  api_wait_until :: "child_handle \<Rightarrow> int \<Rightarrow> time_point \<Rightarrow> 'w \<Rightarrow> (bool, int \<times> 'w) outcome"
  handle_close :: "native_handle_t \<Rightarrow> 'w \<Rightarrow> 'w"
  deleter :: "nat \<Rightarrow> 'w \<Rightarrow> 'w"

subsection \<open>The class child\<close>

text \<open>
  The members, in the order of their declaration. \<open>m_resource\<close> is the
  \<^verbatim>\<open>std::unique_ptr<void, void(*)(void*)>\<close>: \<open>None\<close> is the null pointer and \<open>Some p\<close>
  owns the aggregate at address \<open>p\<close>. The two atomics are read and written one at a
  time, each load and store being one step.
\<close>

record child =
  m_child_handle :: child_handle
  m_resource :: "nat option"
  m_exited :: bool
  m_exit_code :: int
  m_attached :: bool

definition child_default :: child where
  \<comment> \<open>\<^verbatim>\<open>child() = default\<close>: the default member initialisers\<close>
  "child_default =
     \<lparr>m_child_handle = None, m_resource = None, m_exited = False, m_exit_code = - 1,
      m_attached = False\<rparr>"

definition child_ctor :: "child_handle \<Rightarrow> nat option \<Rightarrow> child" where
  \<comment> \<open>\<^verbatim>\<open>explicit child(child_handle &&ch, resource_t && resource = nullptr)\<close>\<close>
  "child_ctor ch resource =
     \<lparr>m_child_handle = ch, m_resource = resource, m_exited = False, m_exit_code = - 1,
      m_attached = False\<rparr>"

definition moved_from :: "child \<Rightarrow> child" where
  \<comment> \<open>what \<^verbatim>\<open>std::move\<close> of the handle and of the owning pointer leaves in the source: an
      empty handle (as the spec has it) and a null pointer; the flags and the exit code
      of the source are only read\<close>
  "moved_from lhs = lhs\<lparr>m_child_handle := None, m_resource := None\<rparr>"

definition child_move :: "child \<Rightarrow> child \<times> child" where
  \<comment> \<open>\<^verbatim>\<open>child(child && lhs)\<close>: the new owner and the source after the move\<close>
  "child_move lhs =
     (\<lparr>m_child_handle = m_child_handle lhs, m_resource = m_resource lhs,
       m_exited = m_exited lhs, m_exit_code = m_exit_code lhs,
       m_attached = m_attached lhs\<rparr>,
      moved_from lhs)"

definition resource_dtor :: "'w platform \<Rightarrow> nat option \<Rightarrow> 'w \<Rightarrow> 'w" where
  \<comment> \<open>the owning pointer lets go of what it holds: the deleter runs unless it is null\<close>
  "resource_dtor api r w = (case r of None \<Rightarrow> w | Some p \<Rightarrow> deleter api p w)"

definition handle_dtor :: "'w platform \<Rightarrow> child_handle \<Rightarrow> 'w \<Rightarrow> 'w" where
  \<comment> \<open>Modelled from the spec: the destructor of \<^verbatim>\<open>child_handle\<close>, which is declared in the
      platform headers. Destroying an empty handle does nothing; a valid one is handed
      to the platform\<close>
  "handle_dtor api h w = (case h of None \<Rightarrow> w | Some p \<Rightarrow> handle_close api p w)"

definition move_assign :: "'w platform \<Rightarrow> child \<Rightarrow> child \<Rightarrow> 'w \<Rightarrow> child \<times> child \<times> 'w" where
  \<comment> \<open>\<^verbatim>\<open>child& operator=(child && lhs)\<close>, for two distinct objects: this owner, the
      source and the world after the assignment; assigning to the owning pointer
      releases the aggregate it held\<close>
  "move_assign api this lhs w =
     (this\<lparr>m_child_handle := m_child_handle lhs, m_resource := m_resource lhs,
           m_exited := m_exited lhs, m_exit_code := m_exit_code lhs,
           m_attached := m_attached lhs\<rparr>,
      moved_from lhs,
      resource_dtor api (m_resource this) w)"

definition valid :: "child \<Rightarrow> bool" where
  "valid c = handle_valid (m_child_handle c)"

definition exit_code :: "child \<Rightarrow> int" where
  "exit_code c = m_exit_code c"

definition running :: "'w platform \<Rightarrow> child \<times> 'w \<Rightarrow> (bool, child \<times> 'w) outcome" where
  "running api s =
     (case s of (c, w) \<Rightarrow>
        if valid c then
          (case api_is_running api (m_child_handle c) w of
             Returns b w' \<Rightarrow> Returns b (c, w')
           | Throws e w' \<Rightarrow> Throws e (c, w')
           | Hangs \<Rightarrow> Hangs)
        else Returns False (c, w))"

definition terminate :: "'w platform \<Rightarrow> child \<times> 'w \<Rightarrow> (unit, child \<times> 'w) outcome" where
  "terminate api s =
     (case s of (c, w) \<Rightarrow>
        (case api_terminate api (m_child_handle c) w of
           Returns u w' \<Rightarrow> Returns () (c, w')
         | Throws e w' \<Rightarrow> Throws e (c, w')
         | Hangs \<Rightarrow> Hangs))"

definition wait :: "'w platform \<Rightarrow> child \<times> 'w \<Rightarrow> (unit, child \<times> 'w) outcome" where
  \<comment> \<open>the local \<^verbatim>\<open>exit_code\<close> (here \<open>local_exit_code\<close>) starts at 0 and is passed
      by reference\<close>
  "wait api s =
     (case s of (c, w) \<Rightarrow>
        if \<not> m_exited c then
          (case api_wait api (m_child_handle c) 0 w of
             Returns u (local_exit_code, w') \<Rightarrow>
               Returns () ((c\<lparr>m_exited := True\<rparr>)\<lparr>m_exit_code := local_exit_code\<rparr>, w')
           | Throws e (local_exit_code, w') \<Rightarrow> Throws e (c, w')
           | Hangs \<Rightarrow> Hangs)
        else Returns () (c, w))"

definition wait_for :: "'w platform \<Rightarrow> duration \<Rightarrow> child \<times> 'w \<Rightarrow> (bool, child \<times> 'w) outcome" where
  \<comment> \<open>the platform is handed the member \<^verbatim>\<open>_exit_code\<close>, not the local \<^verbatim>\<open>exit_code\<close>,
      which still holds 0 when it is stored\<close>
  "wait_for api rel_time s =
     (case s of (c, w) \<Rightarrow>
        if \<not> m_exited c then
          (let local_exit_code = 0 in
           case api_wait_for api (m_child_handle c) (m_exit_code c) rel_time w of
             Returns b (v, w') \<Rightarrow>
               (let c1 = (c\<lparr>m_exit_code := v\<rparr>)\<lparr>m_exited := b\<rparr> in
                if \<not> b then Returns False (c1, w')
                else Returns True (c1\<lparr>m_exit_code := local_exit_code\<rparr>, w'))
           | Throws e (v, w') \<Rightarrow> Throws e (c\<lparr>m_exit_code := v\<rparr>, w')
           | Hangs \<Rightarrow> Hangs)
        else Returns True (c, w))"

definition wait_until :: "'w platform \<Rightarrow> time_point \<Rightarrow> child \<times> 'w \<Rightarrow> (bool, child \<times> 'w) outcome" where
  "wait_until api timeout_time s =
     (case s of (c, w) \<Rightarrow>
        if \<not> m_exited c then
          (let local_exit_code = 0 in
           case api_wait_until api (m_child_handle c) (m_exit_code c) timeout_time w of
             Returns b (v, w') \<Rightarrow>
               (let c1 = (c\<lparr>m_exit_code := v\<rparr>)\<lparr>m_exited := b\<rparr> in
                if \<not> b then Returns False (c1, w')
                else Returns True (c1\<lparr>m_exit_code := local_exit_code\<rparr>, w'))
           | Throws e (v, w') \<Rightarrow> Throws e (c\<lparr>m_exit_code := v\<rparr>, w')
           | Hangs \<Rightarrow> Hangs)
        else Returns True (c, w))"

definition destroy_members :: "'w platform \<Rightarrow> child \<Rightarrow> 'w \<Rightarrow> 'w" where
  \<comment> \<open>members are destroyed in the reverse order of their declaration: the flags and
      the exit code (nothing to do), then the owning pointer, then the handle\<close>
  "destroy_members api c w = handle_dtor api (m_child_handle c) (resource_dtor api (m_resource c) w)"

definition child_dtor :: "'w platform \<Rightarrow> child \<times> 'w \<Rightarrow> (unit, 'w) outcome" where
  \<comment> \<open>\<^verbatim>\<open>~child()\<close>: the body, then the members; the owner is gone afterwards. An
      exception that leaves the body ends the program before the members are destroyed\<close>
  "child_dtor api s =
     (case s of (c, w) \<Rightarrow>
        (case (if \<not> m_exited c \<and> m_attached c then wait api (c, w) else Returns () (c, w)) of
           Returns u (c', w') \<Rightarrow> Returns () (destroy_members api c' w')
         | Throws e (c', w') \<Rightarrow> Throws e w'
         | Hangs \<Rightarrow> Hangs))"

subsection \<open>What an observer sees while wait() runs\<close>

text \<open>
  \<^verbatim>\<open>_exited\<close> and \<^verbatim>\<open>_exit_code\<close> are atomics that other threads may read at any
  moment. \<open>wait_points\<close> lists the states of the owner they can read in the course of
  one call of \<^verbatim>\<open>wait()\<close> that returns: before the call, after
  \<^verbatim>\<open>_exited.store(true)\<close>, after \<^verbatim>\<open>_exit_code.store(exit_code)\<close>.
\<close>

definition wait_points :: "'w platform \<Rightarrow> child \<times> 'w \<Rightarrow> child list" where
  "wait_points api s =
     (case s of (c, w) \<Rightarrow>
        if \<not> m_exited c then
          (case api_wait api (m_child_handle c) 0 w of
             Returns u (local_exit_code, w') \<Rightarrow>
               [c, c\<lparr>m_exited := True\<rparr>,
                (c\<lparr>m_exited := True\<rparr>)\<lparr>m_exit_code := local_exit_code\<rparr>]
           | Throws e (local_exit_code, w') \<Rightarrow> [c]
           | Hangs \<Rightarrow> [c])
        else [c])"

subsection \<open>Sequences of operations on one owner\<close>

datatype operation =
  Op_Running | Op_Terminate | Op_Wait | Op_Wait_For duration | Op_Wait_Until time_point
  | Op_Assign child

definition after :: "('r, 's) outcome \<Rightarrow> 's option" where
  \<comment> \<open>the state in which the caller goes on, when control comes back to it\<close>
  "after out = (case out of Returns r s \<Rightarrow> Some s | Throws e s \<Rightarrow> Some s | Hangs \<Rightarrow> None)"

fun run_op :: "'w platform \<Rightarrow> operation \<Rightarrow> child \<times> 'w \<Rightarrow> (child \<times> 'w) option" where
  "run_op api Op_Running s = after (running api s)"
| "run_op api Op_Terminate s = after (terminate api s)"
| "run_op api Op_Wait s = after (wait api s)"
| "run_op api (Op_Wait_For rel_time) s = after (wait_for api rel_time s)"
| "run_op api (Op_Wait_Until timeout_time) s = after (wait_until api timeout_time s)"
| "run_op api (Op_Assign lhs) s =
     (case s of (c, w) \<Rightarrow>
        (case move_assign api c lhs w of (c', lhs', w') \<Rightarrow> Some (c', w')))"

fun run_ops :: "'w platform \<Rightarrow> operation list \<Rightarrow> child \<times> 'w \<Rightarrow> (child \<times> 'w) option" where
  "run_ops api [] s = Some s"
| "run_ops api (x # xs) s =
     (case run_op api x s of None \<Rightarrow> None | Some s' \<Rightarrow> run_ops api xs s')"

fun is_assign :: "operation \<Rightarrow> bool" where
  "is_assign (Op_Assign lhs) = True"
| "is_assign x = False"

text \<open>
  The states an owner can be in: those the constructors make, and those the public
  operations lead to from them.
\<close>

inductive reachable :: "'w platform \<Rightarrow> child \<Rightarrow> bool" for api :: "'w platform" where
  reach_default: "reachable api child_default"
| reach_ctor: "reachable api (child_ctor ch r)"
| reach_move: "reachable api lhs \<Longrightarrow> reachable api (fst (child_move lhs))"
| reach_moved_from: "reachable api lhs \<Longrightarrow> reachable api (moved_from lhs)"
| reach_call:
    "reachable api c \<Longrightarrow> \<not> is_assign x \<Longrightarrow> run_op api x (c, w) = Some (c', w')
     \<Longrightarrow> reachable api c'"
| reach_assign:
    "reachable api c \<Longrightarrow> reachable api lhs
     \<Longrightarrow> run_op api (Op_Assign lhs) (c, w) = Some (c', w') \<Longrightarrow> reachable api c'"

subsection \<open>A scripted platform\<close>

text \<open>
  A platform to run the model on: one process that exits with \<open>status\<close> at time
  \<open>exit_time\<close> (durations and deadlines both count from 0), and a world that is the
  list of the calls made so far. A bounded wait that times out leaves the referenced
  exit code as it found it.
\<close>

datatype syscall =
  Sys_Is_Running child_handle | Sys_Terminate child_handle | Sys_Wait child_handle
  | Sys_Wait_For child_handle duration | Sys_Wait_Until child_handle time_point
  | Sys_Close native_handle_t | Sys_Delete nat

definition scripted :: "int \<Rightarrow> int \<Rightarrow> syscall list platform" where
  "scripted status exit_time =
     \<lparr>api_is_running = (\<lambda>h w. Returns True (w @ [Sys_Is_Running h])),
      api_terminate = (\<lambda>h w. Returns () (w @ [Sys_Terminate h])),
      api_wait = (\<lambda>h v w. Returns () (status, w @ [Sys_Wait h])),
      api_wait_for = (\<lambda>h v rel_time w.
         if exit_time \<le> rel_time then Returns True (status, w @ [Sys_Wait_For h rel_time])
         else Returns False (v, w @ [Sys_Wait_For h rel_time])),
      api_wait_until = (\<lambda>h v timeout_time w.
         if exit_time \<le> timeout_time
         then Returns True (status, w @ [Sys_Wait_Until h timeout_time])
         else Returns False (v, w @ [Sys_Wait_Until h timeout_time])),
      handle_close = (\<lambda>p w. w @ [Sys_Close p]),
      deleter = (\<lambda>p w. w @ [Sys_Delete p])\<rparr>"

text \<open>
  The same platform, but with bounded waits that use the referenced exit code as
  their working storage: when the bound elapses they return false and leave \<open>raw\<close>
  in it.
\<close>

definition scripted_raw :: "int \<Rightarrow> int \<Rightarrow> int \<Rightarrow> syscall list platform" where
  "scripted_raw raw status exit_time =
     (scripted status exit_time)
       \<lparr>api_wait_for := (\<lambda>h v rel_time w.
          if exit_time \<le> rel_time then Returns True (status, w @ [Sys_Wait_For h rel_time])
          else Returns False (raw, w @ [Sys_Wait_For h rel_time])),
        api_wait_until := (\<lambda>h v timeout_time w.
          if exit_time \<le> timeout_time
          then Returns True (status, w @ [Sys_Wait_Until h timeout_time])
          else Returns False (raw, w @ [Sys_Wait_Until h timeout_time]))\<rparr>"

section \<open>Properties\<close>

subsection \<open>Auxiliary facts\<close>

lemma is_none_t_never: "\<not> is_none_t v"
  by (simp add: is_none_t_def decltype_value_def decltype_none_def split: option.splits)

text \<open>No entry passes the filter: the aggregate is the empty one, whatever the
  descriptors are.\<close>

lemma make_resource_empty: "make_resource f tup = Inr (Resource_T [])"
  by (simp add: make_resource_def maker_def is_none_t_never)

text \<open>When the platform's bounded wait reports that the bound elapsed, the stored exit
  code is what the platform left in the integer it was given.\<close>

lemma wait_for_timeout:
  "\<not> m_exited c \<Longrightarrow> api_wait_for api (m_child_handle c) (m_exit_code c) rel_time w
     = Returns False (v, w')
   \<Longrightarrow> wait_for api rel_time (c, w) = Returns False (c\<lparr>m_exit_code := v\<rparr>, w')"
  by (cases c) (simp add: wait_for_def)

lemma wait_until_timeout:
  "\<not> m_exited c \<Longrightarrow> api_wait_until api (m_child_handle c) (m_exit_code c) timeout_time w
     = Returns False (v, w')
   \<Longrightarrow> wait_until api timeout_time (c, w) = Returns False (c\<lparr>m_exit_code := v\<rparr>, w')"
  by (cases c) (simp add: wait_until_def)

lemma after_running: "after (running api (c, w)) = Some (c', w') \<Longrightarrow> c' = c"
  by (auto simp: after_def running_def split: if_splits outcome.splits)

lemma after_terminate: "after (terminate api (c, w)) = Some (c', w') \<Longrightarrow> c' = c"
  by (auto simp: after_def terminate_def split: outcome.splits)

lemma after_wait:
  "after (wait api (c, w)) = Some (c', w') \<Longrightarrow>
     m_attached c' = m_attached c \<and> (m_exited c \<longrightarrow> m_exited c')"
  by (auto simp: after_def wait_def split: if_splits outcome.splits)

lemma after_wait_for:
  "after (wait_for api d (c, w)) = Some (c', w') \<Longrightarrow>
     m_attached c' = m_attached c \<and> (m_exited c \<longrightarrow> m_exited c')"
  by (auto simp: after_def wait_for_def Let_def split: if_splits outcome.splits)

lemma after_wait_until:
  "after (wait_until api t (c, w)) = Some (c', w') \<Longrightarrow>
     m_attached c' = m_attached c \<and> (m_exited c \<longrightarrow> m_exited c')"
  by (auto simp: after_def wait_until_def Let_def split: if_splits outcome.splits)

lemma run_op_call:
  "\<not> is_assign x \<Longrightarrow> run_op api x (c, w) = Some (c', w') \<Longrightarrow>
     m_attached c' = m_attached c \<and> (m_exited c \<longrightarrow> m_exited c')"
  by (cases x)
    (auto dest: after_running after_terminate after_wait after_wait_for after_wait_until)

lemma run_op_assign:
  "run_op api (Op_Assign lhs) (c, w) = Some (c', w') \<Longrightarrow>
     m_attached c' = m_attached lhs \<and> m_exited c' = m_exited lhs"
  by (auto simp: move_assign_def)

text \<open>No constructor and no operation sets the attached flag: it is false in every
  state an owner can be in.\<close>

lemma reachable_not_attached: "reachable api c \<Longrightarrow> \<not> m_attached c"
proof (induction rule: reachable.induct)
  case reach_default
  show ?case by (simp add: child_default_def)
next
  case (reach_ctor ch r)
  show ?case by (simp add: child_ctor_def)
next
  case (reach_move lhs)
  then show ?case by (simp add: child_move_def)
next
  case (reach_moved_from lhs)
  then show ?case by (simp add: moved_from_def)
next
  case (reach_call c x w c' w')
  then show ?case using run_op_call [of x api c w c' w'] by simp
next
  case (reach_assign c lhs w c' w')
  then show ?case using run_op_assign [of api lhs c w c' w'] by simp
qed

lemma run_ops_exited:
  "list_all (\<lambda>x. \<not> is_assign x) xs \<Longrightarrow> m_exited c \<Longrightarrow> run_ops api xs (c, w) = Some (c', w')
     \<Longrightarrow> m_exited c'"
proof (induction xs arbitrary: c w)
  case Nil
  then show ?case by simp
next
  case (Cons x xs)
  from Cons.prems obtain c1 w1 where s: "run_op api x (c, w) = Some (c1, w1)"
    and r: "run_ops api xs (c1, w1) = Some (c', w')"
    by (auto split: option.splits)
  from Cons.prems have "\<not> is_assign x" by simp
  with s Cons.prems(2) have "m_exited c1" using run_op_call [of x api c w c1 w1] by simp
  with Cons.IH [of c1 w1] Cons.prems(1) r show ?case by simp
qed

lemma child_dtor_no_wait:
  "m_exited c \<or> \<not> m_attached c \<Longrightarrow> child_dtor api (c, w) = Returns () (destroy_members api c w)"
  by (auto simp: child_dtor_def)

lemma child_move_eq: "child_move a = (a, moved_from a)"
  by (cases a) (simp add: child_move_def)

lemma move_assign_eq:
  "move_assign api b0 a w0 = (a, moved_from a, resource_dtor api (m_resource b0) w0)"
  by (cases a, cases b0) (simp add: move_assign_def)

lemma moved_from_invalid: "\<not> valid (moved_from a)"
  by (simp add: moved_from_def valid_def handle_valid_def)

lemma moved_from_dtor: "\<not> m_attached a \<Longrightarrow> child_dtor api (moved_from a, w) = Returns () w"
  by (simp add: child_dtor_def moved_from_def destroy_members_def resource_dtor_def
      handle_dtor_def)

lemma running_invalid: "\<not> valid c \<Longrightarrow> running api (c, w) = Returns False (c, w)"
  by (simp add: running_def)

lemma terminate_forwards:
  "terminate api (c, w) =
     (case api_terminate api (m_child_handle c) w of
        Returns u w' \<Rightarrow> Returns () (c, w')
      | Throws e w' \<Rightarrow> Throws e (c, w')
      | Hangs \<Rightarrow> Hangs)"
  by (simp add: terminate_def)

text \<open>Whatever exit code the platform reports, a bounded wait that returns true from a
  state that had not exited leaves 0 as the stored exit code.\<close>

lemma wait_for_true_exit_code:
  "\<not> m_exited c \<Longrightarrow> wait_for api rel_time (c, w) = Returns True (c', w') \<Longrightarrow> exit_code c' = 0"
  by (auto simp: wait_for_def Let_def exit_code_def split: outcome.splits if_splits)

lemma wait_until_true_exit_code:
  "\<not> m_exited c \<Longrightarrow> wait_until api timeout_time (c, w) = Returns True (c', w')
     \<Longrightarrow> exit_code c' = 0"
  by (auto simp: wait_until_def Let_def exit_code_def split: outcome.splits if_splits)

subsection \<open>Resource aggregate\<close>

text \<open>
  C1. The claim: building the resource bundle drops exactly the absent (none-valued)
  entries and makes the aggregate from the remaining concrete resources, in order.
  The code keeps no entry at all. \<^verbatim>\<open>boost::hana::filter\<close> keeps the entries for which
  its predicate is true, and the predicate asks whether the type of the entry is the
  type of \<^verbatim>\<open>boost::none\<close>: it is written to select the absent entries, not the
  resources, and it is false even for them, the one type being \<^verbatim>\<open>none_t\<close> and the
  other \<^verbatim>\<open>const none_t\<close>. From the descriptors resolving to the resources 1 and 2
  with an absent entry between them, the aggregate built is the empty one, and
  neither resource is in it.
\<close>

theorem make_resource_drops_resources:
  "make_resource (\<lambda>v. v) [Some (1::nat), None, Some 2] = Inr (Resource_T [])
   \<and> make_resource (\<lambda>v. v) [Some (1::nat), None, Some 2] \<noteq> Inr (Resource_T [Some 1, Some 2])
   \<and> filter (\<lambda>v. is_none_t v) [Some (1::nat), None, Some 2] = []"
  by (simp add: make_resource_def maker_def is_none_t_def decltype_value_def decltype_none_def)

subsection \<open>Construction and destruction\<close>

text \<open>
  C2, as stated: an owner constructed from a valid native handle is attached, so its
  destruction waits when the process has not exited. It fails: the constructor leaves
  \<^verbatim>\<open>_attached\<close> at its initial value \<^verbatim>\<open>false\<close>. For the owner constructed from the
  handle 1, attached and exited are both false, and its destruction, on a platform
  whose process would exit at time 50, returns having made one call only: closing the
  handle. No wait is made.
\<close>

theorem ctor_owner_dtor_does_not_wait:
  "\<not> m_attached (child_ctor (Some 1) None) \<and> \<not> m_exited (child_ctor (Some 1) None)
   \<and> child_dtor (scripted 7 50) (child_ctor (Some 1) None, []) = Returns () [Sys_Close 1]"
  by (simp add: child_ctor_def child_dtor_def destroy_members_def resource_dtor_def
      handle_dtor_def scripted_def)

text \<open>
  C2, amended: an owner constructed from a native handle is not attached, and its
  destruction does not call wait(): it returns after destroying the members. In
  general the destructor calls wait() first exactly when the exited flag is false and
  the attached flag is true, and then behaves as that call does; otherwise it only
  destroys the members.
\<close>

theorem dtor_waits_only_when_attached:
  "\<not> m_attached (child_ctor ch r)
   \<and> child_dtor api (child_ctor ch r, w) = Returns () (destroy_members api (child_ctor ch r) w)
   \<and> (m_exited c \<or> \<not> m_attached c \<longrightarrow>
        child_dtor api (c, w) = Returns () (destroy_members api c w))
   \<and> (\<not> m_exited c \<and> m_attached c \<longrightarrow>
        child_dtor api (c, w) =
          (case wait api (c, w) of
             Returns u (c', w') \<Rightarrow> Returns () (destroy_members api c' w')
           | Throws e (c', w') \<Rightarrow> Throws e w'
           | Hangs \<Rightarrow> Hangs))"
  by (simp add: child_dtor_def child_ctor_def)

theorem dtor_waits_only_when_attached_witness:
  "(m_exited (child_ctor (Some 1) (Some 3)) \<or> \<not> m_attached (child_ctor (Some 1) (Some 3)))
   \<and> child_dtor (scripted 7 50) (child_ctor (Some 1) (Some 3), []) =
       Returns () [Sys_Delete 3, Sys_Close 1]
   \<and> (\<not> m_exited ((child_ctor (Some 1) (Some 3))\<lparr>m_attached := True\<rparr>)
       \<and> m_attached ((child_ctor (Some 1) (Some 3))\<lparr>m_attached := True\<rparr>))
   \<and> child_dtor (scripted 7 50) ((child_ctor (Some 1) (Some 3))\<lparr>m_attached := True\<rparr>, []) =
       Returns () [Sys_Wait (Some 1), Sys_Delete 3, Sys_Close 1]"
proof -
  let ?c = "child_ctor (Some 1) (Some 3)"
  have d: "m_exited ?c \<or> \<not> m_attached ?c"
    by (simp add: child_ctor_def)
  have a: "\<not> m_exited (?c\<lparr>m_attached := True\<rparr>) \<and> m_attached (?c\<lparr>m_attached := True\<rparr>)"
    by (simp add: child_ctor_def)
  from d dtor_waits_only_when_attached [of "Some 1" "Some 3" "scripted 7 50" "[]" ?c]
  have 1: "child_dtor (scripted 7 50) (?c, []) = Returns () [Sys_Delete 3, Sys_Close 1]"
    by (simp add: child_ctor_def destroy_members_def resource_dtor_def handle_dtor_def
        scripted_def)
  from a dtor_waits_only_when_attached
    [of "Some 1" "Some 3" "scripted 7 50" "[]" "?c\<lparr>m_attached := True\<rparr>"]
  have 2: "child_dtor (scripted 7 50) (?c\<lparr>m_attached := True\<rparr>, []) =
      Returns () [Sys_Wait (Some 1), Sys_Delete 3, Sys_Close 1]"
    by (simp add: child_ctor_def wait_def destroy_members_def resource_dtor_def
        handle_dtor_def scripted_def)
  from d a 1 2 show ?thesis by blast
qed

subsection \<open>Bounded waits\<close>

text \<open>
  C3. The claim: when the process terminates within the bound, wait_for and wait_until
  return true and commit the exit code of the process, which exit_code() then returns.
  The code returns true and sets the exited flag, but the exit code it stores is the
  local \<^verbatim>\<open>exit_code\<close>, still 0: the platform was handed the member \<^verbatim>\<open>_exit_code\<close>
  instead, and what it wrote there is overwritten. For a process that exits with
  status 7 at time 50, \<^verbatim>\<open>wait_for(100)\<close> and \<^verbatim>\<open>wait_until(100)\<close> return true and leave
  0 as the exit code, where \<^verbatim>\<open>wait()\<close> leaves 7.
\<close>

theorem bounded_wait_commits_zero:
  "wait_for (scripted 7 50) 100 (child_ctor (Some 1) None, []) =
     Returns True ((child_ctor (Some 1) None)\<lparr>m_exited := True, m_exit_code := 0\<rparr>,
                   [Sys_Wait_For (Some 1) 100])
   \<and> wait_until (scripted 7 50) 100 (child_ctor (Some 1) None, []) =
     Returns True ((child_ctor (Some 1) None)\<lparr>m_exited := True, m_exit_code := 0\<rparr>,
                   [Sys_Wait_Until (Some 1) 100])
   \<and> exit_code ((child_ctor (Some 1) None)\<lparr>m_exited := True, m_exit_code := 0\<rparr>) = 0
   \<and> wait (scripted 7 50) (child_ctor (Some 1) None, []) =
     Returns () ((child_ctor (Some 1) None)\<lparr>m_exited := True, m_exit_code := 7\<rparr>,
                 [Sys_Wait (Some 1)])"
  by (simp add: wait_for_def wait_until_def wait_def scripted_def child_ctor_def exit_code_def)

text \<open>
  C6. The claim: for an owner that has not exited, when the bound elapses before the
  process terminates, wait_for and wait_until return false and leave the owner
  unchanged: the exited flag is still false and the stored exit code is not modified.
  The code returns false and leaves the exited flag false, but it has handed the
  member \<^verbatim>\<open>_exit_code\<close> itself to the platform, by reference, where \<^verbatim>\<open>wait()\<close> hands
  over a local: whatever the platform writes there before it reports the timeout
  is the stored exit code afterwards. On a platform that leaves 99 in the referenced
  integer when the bound elapses, \<^verbatim>\<open>wait_for(10)\<close> and \<^verbatim>\<open>wait_until(10)\<close> on a fresh
  owner, for a process that exits at time 50, return false and exit_code() is 99,
  not the - 1 it was before.
\<close>

theorem bounded_wait_timeout_modifies_exit_code:
  "exit_code (child_ctor (Some 1) None) = - 1
   \<and> wait_for (scripted_raw 99 0 50) 10 (child_ctor (Some 1) None, []) =
       Returns False ((child_ctor (Some 1) None)\<lparr>m_exit_code := 99\<rparr>,
                      [Sys_Wait_For (Some 1) 10])
   \<and> wait_until (scripted_raw 99 0 50) 10 (child_ctor (Some 1) None, []) =
       Returns False ((child_ctor (Some 1) None)\<lparr>m_exit_code := 99\<rparr>,
                      [Sys_Wait_Until (Some 1) 10])
   \<and> \<not> m_exited ((child_ctor (Some 1) None)\<lparr>m_exit_code := 99\<rparr>)
   \<and> exit_code ((child_ctor (Some 1) None)\<lparr>m_exit_code := 99\<rparr>) = 99"
  by (simp add: wait_for_def wait_until_def scripted_raw_def scripted_def child_ctor_def
      exit_code_def)

text \<open>
  C10. For an owner whose exited flag is true, wait_for and wait_until return true for
  every duration and deadline and on every platform; the platform is not called (the
  world is the one given) and the owner, its exited flag and exit code included, is
  unchanged.
\<close>

theorem bounded_wait_after_exit:
  "m_exited c \<Longrightarrow>
     wait_for api rel_time (c, w) = Returns True (c, w)
     \<and> wait_until api timeout_time (c, w) = Returns True (c, w)"
  by (simp add: wait_for_def wait_until_def)

theorem bounded_wait_after_exit_witness:
  "m_exited ((child_ctor (Some 1) None)\<lparr>m_exited := True, m_exit_code := 7\<rparr>)
   \<and> wait_for (scripted 7 50) 10
        ((child_ctor (Some 1) None)\<lparr>m_exited := True, m_exit_code := 7\<rparr>, [Sys_Wait (Some 1)])
      = Returns True
        ((child_ctor (Some 1) None)\<lparr>m_exited := True, m_exit_code := 7\<rparr>, [Sys_Wait (Some 1)])
   \<and> wait_until (scripted 7 50) 10
        ((child_ctor (Some 1) None)\<lparr>m_exited := True, m_exit_code := 7\<rparr>, [Sys_Wait (Some 1)])
      = Returns True
        ((child_ctor (Some 1) None)\<lparr>m_exited := True, m_exit_code := 7\<rparr>, [Sys_Wait (Some 1)])"
proof -
  let ?c = "(child_ctor (Some 1) None)\<lparr>m_exited := True, m_exit_code := 7\<rparr>"
  have e: "m_exited ?c" by simp
  from e bounded_wait_after_exit [OF e, of "scripted 7 50" 10 "[Sys_Wait (Some 1)]" 10]
  show ?thesis by blast
qed

subsection \<open>wait()\<close>

text \<open>
  C4, as stated: at every point of a wait at which an observer can read the owner, if
  the exited flag reads true then exit_code() returns the exit code of the process and
  not the sentinel. It fails inside \<^verbatim>\<open>wait()\<close>, which stores the flag first and the
  exit code second: for a fresh owner and a process that exits with status 7, the
  state after the first store has the exited flag true and the exit code still - 1;
  only the state in which \<^verbatim>\<open>wait()\<close> returns has the exit code 7.
\<close>

theorem wait_exited_before_exit_code:
  "wait_points (scripted 7 50) (child_ctor (Some 1) None, []) ! 1 =
     (child_ctor (Some 1) None)\<lparr>m_exited := True\<rparr>
   \<and> m_exited ((child_ctor (Some 1) None)\<lparr>m_exited := True\<rparr>)
   \<and> exit_code ((child_ctor (Some 1) None)\<lparr>m_exited := True\<rparr>) = - 1
   \<and> wait (scripted 7 50) (child_ctor (Some 1) None, []) =
       Returns () ((child_ctor (Some 1) None)\<lparr>m_exited := True, m_exit_code := 7\<rparr>,
                   [Sys_Wait (Some 1)])"
  by (simp add: wait_points_def wait_def scripted_def child_ctor_def exit_code_def)

text \<open>
  C4, amended: in a call of \<^verbatim>\<open>wait()\<close> on an owner that has not exited, for which the
  platform reports the exit code \<open>status\<close>, an observer can see three states in this
  order: the owner as it was, the owner with the exited flag set, the owner with the
  exited flag set and \<open>status\<close> stored. So the stored exit code changes only after the
  exited flag is set (a state whose exit code differs from the one before the call has
  the flag set), and in the state in which \<^verbatim>\<open>wait()\<close> returns the flag is set and
  exit_code() is \<open>status\<close>. In the state between the two stores the flag is set and
  the exit code is still the previous one.
\<close>

theorem wait_publishes_flag_then_exit_code:
  "\<not> m_exited c \<Longrightarrow> api_wait api (m_child_handle c) 0 w = Returns u (status, w') \<Longrightarrow>
     wait_points api (c, w) =
       [c, c\<lparr>m_exited := True\<rparr>, (c\<lparr>m_exited := True\<rparr>)\<lparr>m_exit_code := status\<rparr>]
     \<and> wait api (c, w) = Returns () (last (wait_points api (c, w)), w')
     \<and> m_exited (last (wait_points api (c, w)))
     \<and> exit_code (last (wait_points api (c, w))) = status
     \<and> (\<forall>s \<in> set (wait_points api (c, w)). exit_code s \<noteq> exit_code c \<longrightarrow> m_exited s)"
  by (simp add: wait_points_def wait_def exit_code_def)

theorem wait_publishes_flag_then_exit_code_witness:
  "\<not> m_exited (child_ctor (Some 1) None)
   \<and> api_wait (scripted 7 50) (m_child_handle (child_ctor (Some 1) None)) 0 []
       = Returns () (7, [Sys_Wait (Some 1)])
   \<and> wait_points (scripted 7 50) (child_ctor (Some 1) None, []) =
       [child_ctor (Some 1) None, (child_ctor (Some 1) None)\<lparr>m_exited := True\<rparr>,
        ((child_ctor (Some 1) None)\<lparr>m_exited := True\<rparr>)\<lparr>m_exit_code := 7\<rparr>]
   \<and> exit_code (last (wait_points (scripted 7 50) (child_ctor (Some 1) None, []))) = 7"
proof -
  let ?c = "child_ctor (Some 1) None"
  have n: "\<not> m_exited ?c"
    by (simp add: child_ctor_def)
  have r: "api_wait (scripted 7 50) (m_child_handle ?c) 0 [] = Returns () (7, [Sys_Wait (Some 1)])"
    by (simp add: scripted_def child_ctor_def)
  from n r wait_publishes_flag_then_exit_code [OF n r] show ?thesis by blast
qed

text \<open>
  C8. wait() is idempotent. On every platform, once a call of wait() has returned, the
  exited flag is true, and a further call, in whatever state the world is by then,
  returns with the owner and the world as they were: no platform call and no change
  of state, so exit_code() is the same after both calls. The same holds for a first
  call on an owner that had exited already.
\<close>

theorem wait_idempotent:
  "(wait api (c, w) = Returns u (c1, w1) \<longrightarrow>
      m_exited c1 \<and> wait api (c1, w2) = Returns () (c1, w2)
      \<and> (\<forall>u' c2 w3. wait api (c1, w2) = Returns u' (c2, w3) \<longrightarrow> exit_code c2 = exit_code c1))
   \<and> (m_exited c \<longrightarrow> wait api (c, w) = Returns () (c, w))"
  by (auto simp: wait_def split: if_splits outcome.splits)

theorem wait_idempotent_witness:
  "wait (scripted 7 50) (child_ctor (Some 1) None, []) =
     Returns () ((child_ctor (Some 1) None)\<lparr>m_exited := True, m_exit_code := 7\<rparr>,
                 [Sys_Wait (Some 1)])
   \<and> m_exited ((child_ctor (Some 1) None)\<lparr>m_exited := True, m_exit_code := 7\<rparr>)
   \<and> wait (scripted 7 50)
        ((child_ctor (Some 1) None)\<lparr>m_exited := True, m_exit_code := 7\<rparr>, [Sys_Wait (Some 1)])
      = Returns () ((child_ctor (Some 1) None)\<lparr>m_exited := True, m_exit_code := 7\<rparr>,
                    [Sys_Wait (Some 1)])"
proof -
  let ?c = "child_ctor (Some 1) None"
  let ?c1 = "?c\<lparr>m_exited := True, m_exit_code := 7\<rparr>"
  have f: "wait (scripted 7 50) (?c, []) = Returns () (?c1, [Sys_Wait (Some 1)])"
    by (simp add: wait_def scripted_def child_ctor_def)
  from f wait_idempotent [of "scripted 7 50" ?c "[]" "()" ?c1 "[Sys_Wait (Some 1)]"
      "[Sys_Wait (Some 1)]"]
  show ?thesis by blast
qed

subsection \<open>Moves\<close>

text \<open>
  C5. Move construction \<open>b(move(a))\<close> and move assignment \<open>b = move(a)\<close>, for two distinct
  owners. For every value of the five members of \<open>a\<close>: afterwards \<open>a.valid()\<close> is false
  and \<open>b\<close> has the native handle, the resource bundle, the exited flag, the exit code
  and the attached flag that \<open>a\<close> had. For every state \<open>a\<close> can be in, destroying \<open>a\<close>
  afterwards returns with the world as it was, on every platform and in every world:
  no wait, no release of a resource, no handle closed, so neither the process nor the
  resources now owned by \<open>b\<close> are touched.
\<close>

theorem move_transfers_ownership:
  "(child_move a = (b, a') \<longrightarrow>
        \<not> valid a'
        \<and> m_child_handle b = m_child_handle a \<and> m_resource b = m_resource a
        \<and> m_exited b = m_exited a \<and> exit_code b = exit_code a
        \<and> m_attached b = m_attached a
        \<and> (reachable api a \<longrightarrow> child_dtor api (a', w) = Returns () w))
   \<and> (move_assign api b0 a w0 = (b, a', w1) \<longrightarrow>
        \<not> valid a'
        \<and> m_child_handle b = m_child_handle a \<and> m_resource b = m_resource a
        \<and> m_exited b = m_exited a \<and> exit_code b = exit_code a
        \<and> m_attached b = m_attached a
        \<and> (reachable api a \<longrightarrow> child_dtor api (a', w) = Returns () w))"
  using reachable_not_attached [of api a]
  by (auto simp: child_move_eq move_assign_eq moved_from_invalid moved_from_dtor)

theorem move_transfers_ownership_witness:
  "child_move \<lparr>m_child_handle = Some 1, m_resource = Some 3, m_exited = True,
       m_exit_code = 7, m_attached = True\<rparr>
     = (\<lparr>m_child_handle = Some 1, m_resource = Some 3, m_exited = True, m_exit_code = 7,
          m_attached = True\<rparr>,
        \<lparr>m_child_handle = None, m_resource = None, m_exited = True, m_exit_code = 7,
          m_attached = True\<rparr>)
   \<and> move_assign (scripted 7 50) (child_ctor (Some 2) (Some 4))
       \<lparr>m_child_handle = Some 1, m_resource = Some 3, m_exited = True,
         m_exit_code = 7, m_attached = True\<rparr> []
     = (\<lparr>m_child_handle = Some 1, m_resource = Some 3, m_exited = True, m_exit_code = 7,
          m_attached = True\<rparr>,
        \<lparr>m_child_handle = None, m_resource = None, m_exited = True, m_exit_code = 7,
          m_attached = True\<rparr>,
        [Sys_Delete 4])
   \<and> \<not> valid \<lparr>m_child_handle = None, m_resource = None, m_exited = True, m_exit_code = 7,
          m_attached = True\<rparr>
   \<and> reachable (scripted 7 50)
       ((child_ctor (Some 1) (Some 3))\<lparr>m_exited := True, m_exit_code := 7\<rparr>)
   \<and> child_move ((child_ctor (Some 1) (Some 3))\<lparr>m_exited := True, m_exit_code := 7\<rparr>)
     = (\<lparr>m_child_handle = Some 1, m_resource = Some 3, m_exited = True, m_exit_code = 7,
          m_attached = False\<rparr>,
        \<lparr>m_child_handle = None, m_resource = None, m_exited = True, m_exit_code = 7,
          m_attached = False\<rparr>)
   \<and> move_assign (scripted 7 50) (child_ctor (Some 2) (Some 4))
       ((child_ctor (Some 1) (Some 3))\<lparr>m_exited := True, m_exit_code := 7\<rparr>) []
     = (\<lparr>m_child_handle = Some 1, m_resource = Some 3, m_exited = True, m_exit_code = 7,
          m_attached = False\<rparr>,
        \<lparr>m_child_handle = None, m_resource = None, m_exited = True, m_exit_code = 7,
          m_attached = False\<rparr>,
        [Sys_Delete 4])
   \<and> child_dtor (scripted 7 50)
       (\<lparr>m_child_handle = None, m_resource = None, m_exited = True, m_exit_code = 7,
          m_attached = False\<rparr>, [Sys_Delete 4])
     = Returns () [Sys_Delete 4]"
proof -
  let ?t = "\<lparr>m_child_handle = Some 1, m_resource = Some 3, m_exited = True,
      m_exit_code = 7, m_attached = True\<rparr>"
  let ?t' = "\<lparr>m_child_handle = None, m_resource = None, m_exited = True, m_exit_code = 7,
      m_attached = True\<rparr>"
  let ?a = "(child_ctor (Some 1) (Some 3))\<lparr>m_exited := True, m_exit_code := 7\<rparr>"
  let ?b = "\<lparr>m_child_handle = Some 1, m_resource = Some 3, m_exited = True, m_exit_code = 7,
      m_attached = False\<rparr>"
  let ?a' = "\<lparr>m_child_handle = None, m_resource = None, m_exited = True, m_exit_code = 7,
      m_attached = False\<rparr>"
  have tm: "child_move ?t = (?t, ?t')"
    by (simp add: child_move_def moved_from_def)
  have ts: "move_assign (scripted 7 50) (child_ctor (Some 2) (Some 4)) ?t []
      = (?t, ?t', [Sys_Delete 4])"
    by (simp add: move_assign_def moved_from_def child_ctor_def resource_dtor_def scripted_def)
  from tm move_transfers_ownership [of ?t ?t ?t' "scripted 7 50" "[]"
      "child_ctor (Some 2) (Some 4)" "[]" "[Sys_Delete 4]"]
  have tv: "\<not> valid ?t'"
    by blast
  have o: "run_op (scripted 7 50) Op_Wait (child_ctor (Some 1) (Some 3), []) =
      Some (?a, [Sys_Wait (Some 1)])"
    by (simp add: after_def wait_def scripted_def child_ctor_def)
  have r: "reachable (scripted 7 50) ?a"
    by (rule reach_call [OF reach_ctor _ o]) simp
  have m: "child_move ?a = (?b, ?a')"
    by (simp add: child_move_def moved_from_def child_ctor_def)
  have s: "move_assign (scripted 7 50) (child_ctor (Some 2) (Some 4)) ?a []
      = (?b, ?a', [Sys_Delete 4])"
    by (simp add: move_assign_def moved_from_def child_ctor_def resource_dtor_def scripted_def)
  from r s move_transfers_ownership [of ?a ?b ?a' "scripted 7 50" "[Sys_Delete 4]"
      "child_ctor (Some 2) (Some 4)" "[]" "[Sys_Delete 4]"]
  have d: "child_dtor (scripted 7 50) (?a', [Sys_Delete 4]) = Returns () [Sys_Delete 4]"
    by blast
  from tm ts tv r m s d show ?thesis by blast
qed

subsection \<open>The exited flag\<close>

text \<open>
  C7, as stated: once the exited flag is true, no sequence of running, terminate, wait,
  wait_for, wait_until and move assignment onto the owner makes it false. It fails for
  move assignment, which stores the flag of the source: the owner of process 1 has
  exited after wait(), and after the assignment of a fresh owner of process 2 onto it
  its exited flag is false.
\<close>

theorem assign_reverts_exited:
  "run_ops (scripted 7 50) [Op_Wait] (child_ctor (Some 1) None, []) =
     Some ((child_ctor (Some 1) None)\<lparr>m_exited := True, m_exit_code := 7\<rparr>,
           [Sys_Wait (Some 1)])
   \<and> m_exited ((child_ctor (Some 1) None)\<lparr>m_exited := True, m_exit_code := 7\<rparr>)
   \<and> run_ops (scripted 7 50) [Op_Wait, Op_Assign (child_ctor (Some 2) None)]
       (child_ctor (Some 1) None, []) =
     Some (child_ctor (Some 2) None, [Sys_Wait (Some 1)])
   \<and> \<not> m_exited (child_ctor (Some 2) None)"
  by (simp add: after_def wait_def move_assign_def child_ctor_def resource_dtor_def
      scripted_def)

text \<open>
  C7, amended: the exited flag is monotone under running, terminate, wait, wait_for and
  wait_until: once it is true it is true after every sequence of these operations,
  on every platform, whether they return or report a failure. A move assignment onto
  the owner gives it the exited flag of the source of the move.
\<close>

theorem exited_monotone_without_assign:
  "(m_exited c \<and> list_all (\<lambda>x. \<not> is_assign x) xs \<and> run_ops api xs (c, w) = Some (c', w')
      \<longrightarrow> m_exited c')
   \<and> (run_op api (Op_Assign lhs) (c, w) = Some (c'', w'') \<longrightarrow> m_exited c'' = m_exited lhs)"
  using run_ops_exited [of xs c api w c' w'] run_op_assign [of api lhs c w c'' w'']
  by blast

theorem exited_monotone_without_assign_witness:
  "m_exited ((child_ctor (Some 1) None)\<lparr>m_exited := True, m_exit_code := 7\<rparr>)
   \<and> list_all (\<lambda>x. \<not> is_assign x)
       [Op_Running, Op_Terminate, Op_Wait, Op_Wait_For 10, Op_Wait_Until 10]
   \<and> run_ops (scripted 7 50) [Op_Running, Op_Terminate, Op_Wait, Op_Wait_For 10, Op_Wait_Until 10]
       ((child_ctor (Some 1) None)\<lparr>m_exited := True, m_exit_code := 7\<rparr>, []) =
     Some ((child_ctor (Some 1) None)\<lparr>m_exited := True, m_exit_code := 7\<rparr>,
           [Sys_Is_Running (Some 1), Sys_Terminate (Some 1)])
   \<and> run_op (scripted 7 50) (Op_Assign (child_ctor (Some 2) None))
       ((child_ctor (Some 1) None)\<lparr>m_exited := True, m_exit_code := 7\<rparr>, []) =
     Some (\<lparr>m_child_handle = Some 2, m_resource = None, m_exited = False,
             m_exit_code = - 1, m_attached = False\<rparr>, [])
   \<and> m_exited \<lparr>m_child_handle = Some 2, m_resource = None, m_exited = False,
         m_exit_code = - 1, m_attached = False\<rparr>
     = m_exited (child_ctor (Some 2) None)"
proof -
  let ?c = "(child_ctor (Some 1) None)\<lparr>m_exited := True, m_exit_code := 7\<rparr>"
  let ?xs = "[Op_Running, Op_Terminate, Op_Wait, Op_Wait_For 10, Op_Wait_Until 10]"
  have e: "m_exited ?c" by simp
  have l: "list_all (\<lambda>x. \<not> is_assign x) ?xs" by simp
  have r: "run_ops (scripted 7 50) ?xs (?c, []) =
      Some (?c, [Sys_Is_Running (Some 1), Sys_Terminate (Some 1)])"
    by (simp add: after_def running_def terminate_def wait_def wait_for_def wait_until_def
        valid_def handle_valid_def child_ctor_def scripted_def)
  let ?d = "\<lparr>m_child_handle = Some 2, m_resource = None, m_exited = False,
      m_exit_code = - 1, m_attached = False\<rparr>"
  have a: "run_op (scripted 7 50) (Op_Assign (child_ctor (Some 2) None)) (?c, []) =
      Some (?d, [])"
    by (simp add: move_assign_def child_ctor_def resource_dtor_def)
  from e l r a exited_monotone_without_assign [of ?c ?xs "scripted 7 50" "[]" ?c
      "[Sys_Is_Running (Some 1), Sys_Terminate (Some 1)]" "child_ctor (Some 2) None"
      ?d "[]"]
  show ?thesis by blast
qed

subsection \<open>Owners with an empty handle\<close>

text \<open>
  C9, as stated: every lifecycle operation on an owner with an empty handle,
  default-constructed or moved-from, is a no-op or reports invalid; exit_code() returns
  the sentinel - 1 and terminate() is a no-op. It fails in three ways. A move empties
  the handle and the resource pointer of its source and leaves its exit code: the owner
  of process 1 has the exit code 7 after wait(), and once it has been moved from its
  handle is empty and exit_code() is still 7. terminate() has no check of the handle:
  on a default-constructed owner it calls the platform with the empty handle. Nor have
  the waits: on a default-constructed owner wait() calls the platform with the empty
  handle, sets the exited flag and stores the exit code it is given, and wait_for does
  the same and stores 0.
\<close>

theorem empty_handle_operations_not_noops:
  "wait (scripted 7 50) (child_ctor (Some 1) None, []) =
     Returns () ((child_ctor (Some 1) None)\<lparr>m_exited := True, m_exit_code := 7\<rparr>,
                 [Sys_Wait (Some 1)])
   \<and> m_child_handle
       (snd (child_move ((child_ctor (Some 1) None)\<lparr>m_exited := True, m_exit_code := 7\<rparr>)))
     = None
   \<and> exit_code
       (snd (child_move ((child_ctor (Some 1) None)\<lparr>m_exited := True, m_exit_code := 7\<rparr>)))
     = 7
   \<and> m_child_handle child_default = None
   \<and> terminate (scripted 7 50) (child_default, []) =
       Returns () (child_default, [Sys_Terminate None])
   \<and> wait (scripted 7 50) (child_default, []) =
       Returns () (child_default\<lparr>m_exited := True, m_exit_code := 7\<rparr>, [Sys_Wait None])
   \<and> wait_for (scripted 7 50) 100 (child_default, []) =
       Returns True (child_default\<lparr>m_exited := True, m_exit_code := 0\<rparr>,
                     [Sys_Wait_For None 100])"
  by (simp add: wait_def wait_for_def terminate_def scripted_def child_ctor_def
      child_default_def child_move_def moved_from_def exit_code_def)

text \<open>
  C9, amended: on an owner with an empty handle, valid() is false and running() returns
  false without calling the platform; exit_code() returns the stored exit code, which
  is - 1 for a default-constructed owner and, for a moved-from owner, the exit code it
  had before the move; the destructor, in every state an owner can be in, returns
  without calling wait() or any other platform operation, releasing only the resource
  bundle if the owner holds one (a default-constructed owner holds none). Nothing is
  said of terminate() and of the waits, which pass the handle to the platform whether
  it is empty or not.
\<close>

theorem empty_handle_observers_and_dtor:
  "m_child_handle c = None \<Longrightarrow>
     \<not> valid c
     \<and> running api (c, w) = Returns False (c, w)
     \<and> exit_code child_default = - 1
     \<and> m_child_handle (moved_from a) = None
     \<and> exit_code (moved_from a) = exit_code a
     \<and> (reachable api c \<longrightarrow>
          child_dtor api (c, w) = Returns () (resource_dtor api (m_resource c) w))
     \<and> child_dtor api (child_default, w) = Returns () w"
proof -
  assume h: "m_child_handle c = None"
  have v: "\<not> valid c"
    using h by (simp add: valid_def handle_valid_def)
  have r: "running api (c, w) = Returns False (c, w)"
    using v by (rule running_invalid)
  have e: "exit_code child_default = - 1"
    by (simp add: exit_code_def child_default_def)
  have n: "m_child_handle (moved_from a) = None"
    by (simp add: moved_from_def)
  have m: "exit_code (moved_from a) = exit_code a"
    by (simp add: exit_code_def moved_from_def)
  have d: "reachable api c \<longrightarrow>
      child_dtor api (c, w) = Returns () (resource_dtor api (m_resource c) w)"
    using h reachable_not_attached [of api c]
    by (auto simp: child_dtor_no_wait destroy_members_def handle_dtor_def)
  have dd: "child_dtor api (child_default, w) = Returns () w"
    by (simp add: child_dtor_def child_default_def destroy_members_def handle_dtor_def
        resource_dtor_def)
  from v r e n m d dd show ?thesis by blast
qed

theorem empty_handle_observers_and_dtor_witness:
  "m_child_handle (moved_from ((child_ctor (Some 1) (Some 3))\<lparr>m_exited := True, m_exit_code := 7\<rparr>))
     = None
   \<and> reachable (scripted 7 50)
       (moved_from ((child_ctor (Some 1) (Some 3))\<lparr>m_exited := True, m_exit_code := 7\<rparr>))
   \<and> \<not> valid (moved_from ((child_ctor (Some 1) (Some 3))\<lparr>m_exited := True, m_exit_code := 7\<rparr>))
   \<and> running (scripted 7 50)
       (moved_from ((child_ctor (Some 1) (Some 3))\<lparr>m_exited := True, m_exit_code := 7\<rparr>), [])
     = Returns False
       (moved_from ((child_ctor (Some 1) (Some 3))\<lparr>m_exited := True, m_exit_code := 7\<rparr>), [])
   \<and> exit_code (moved_from ((child_ctor (Some 1) (Some 3))\<lparr>m_exited := True, m_exit_code := 7\<rparr>))
     = 7
   \<and> child_dtor (scripted 7 50)
       (moved_from ((child_ctor (Some 1) (Some 3))\<lparr>m_exited := True, m_exit_code := 7\<rparr>), [])
     = Returns () []
   \<and> exit_code child_default = - 1
   \<and> child_dtor (scripted 7 50) (child_default, []) = Returns () []"
proof -
  let ?a = "(child_ctor (Some 1) (Some 3))\<lparr>m_exited := True, m_exit_code := 7\<rparr>"
  have h: "m_child_handle (moved_from ?a) = None"
    by (simp add: moved_from_def)
  have o: "run_op (scripted 7 50) Op_Wait (child_ctor (Some 1) (Some 3), []) =
      Some (?a, [Sys_Wait (Some 1)])"
    by (simp add: after_def wait_def scripted_def child_ctor_def)
  have ra: "reachable (scripted 7 50) ?a"
    by (rule reach_call [OF reach_ctor _ o]) simp
  have r: "reachable (scripted 7 50) (moved_from ?a)"
    using ra by (rule reach_moved_from)
  have c: "exit_code ?a = 7"
    by (simp add: exit_code_def)
  have z: "resource_dtor (scripted 7 50) (m_resource (moved_from ?a)) [] = []"
    by (simp add: resource_dtor_def moved_from_def)
  from h r c z empty_handle_observers_and_dtor [OF h, of "scripted 7 50" "[]" ?a]
  show ?thesis by simp
qed

end
